theory Spec2Isabelle
  imports Main
begin

section \<open>Strings, errors and effects\<close>

text \<open>
  JavaScript strings are modelled as \<open>string\<close>, the UTF-8 bytes that reach the
  external process. The characters the program treats specially (double quote, backslash,
  newline) are ASCII and are single bytes in UTF-8.
\<close>

abbreviation dq :: char where "dq \<equiv> CHR 0x22"
abbreviation bs :: char where "bs \<equiv> CHR 0x5C"
abbreviation nl :: char where "nl \<equiv> CHR 0x0A"
abbreviation tab :: char where "tab \<equiv> CHR 0x09"

text \<open>
  A rejected promise is a value: \<open>SpawnFailure\<close> when the interpreter cannot be
  started, \<open>ExitFailure\<close> when the process exits with a non-zero status.
\<close>

datatype error = SpawnFailure | ExitFailure

text \<open>
  What an operation does to the outside world, in order: a line written to standard output
  by \<open>console.log\<close>, or one external process started with a file and its arguments.
\<close>

datatype effect = Stdout string | ExecFile string "string list"

text \<open>
  The external process is a parameter: for a file and its arguments it either fails or
  produces a standard output.
\<close>

type_synonym process = "string \<Rightarrow> string list \<Rightarrow> error + string"

type_synonym 'a io = "(error + 'a) \<times> effect list"

definition then_io :: "'a io \<Rightarrow> ('a \<Rightarrow> 'b io) \<Rightarrow> 'b io" where
  "then_io m k =
     (case m of
        (Inl e, tr) \<Rightarrow> (Inl e, tr)
      | (Inr x, tr) \<Rightarrow> (case k x of (r, tr') \<Rightarrow> (r, tr @ tr')))"

definition console_log :: "string \<Rightarrow> unit io" where
  "console_log s = (Inr (), [Stdout (s @ [nl])])"

section \<open>The dependencies\<close>

subsection \<open>escape-string-applescript\<close>

text \<open>
  Modelled from the spec: the package escape-string-applescript, required as
  \<open>escapeString\<close>, is not under src/. In a string, quotes and backslashes are
  neutralised by a backslash in front of each. A value that is not a string (here
  \<open>None\<close>, JavaScript's \<open>undefined\<close>) is given back as it is: the source's
  \<open>escapeString(options.title) || "LaunchBar"\<close> takes the default through it.
\<close>

fun escapeChars :: "string \<Rightarrow> string" where
  "escapeChars [] = []"
| "escapeChars (c # cs) =
     (if c = dq \<or> c = bs then bs # c # escapeChars cs else c # escapeChars cs)"

definition escapeString :: "string option \<Rightarrow> string option" where
  "escapeString v = (case v of None \<Rightarrow> None | Some s \<Rightarrow> Some (escapeChars s))"

text \<open>
  Modelled from the spec: the quoting rules of the scripting interpreter are not under
  src/. \<open>scanLiteral\<close> reads a string literal from the character after its opening quote:
  the literal ends at the first quote that no backslash precedes, a backslash takes the
  next character with it (quote, backslash, \<open>n\<close>, \<open>r\<close>, \<open>t\<close>; anything else is a syntax
  error), and a literal that never ends is a syntax error. The result is the text the
  literal denotes and the rest of the command after the closing quote.
\<close>

definition unescape :: "char \<Rightarrow> char option" where
  "unescape d =
     (if d = dq then Some dq
      else if d = bs then Some bs
      else if d = CHR ''n'' then Some nl
      else if d = CHR ''r'' then Some (CHR 0x0D)
      else if d = CHR ''t'' then Some tab
      else None)"

fun scanLiteral :: "string \<Rightarrow> (string \<times> string) option" where
  "scanLiteral [] = None"
| "scanLiteral [c] = (if c = dq then Some ([], []) else None)"
| "scanLiteral (c # d # ds) =
     (if c = dq then Some ([], d # ds)
      else if c = bs then
        (case unescape d of
           None \<Rightarrow> None
         | Some u \<Rightarrow>
             (case scanLiteral ds of
                None \<Rightarrow> None
              | Some (body, rest) \<Rightarrow> Some (u # body, rest)))
      else
        (case scanLiteral (d # ds) of
           None \<Rightarrow> None
         | Some (body, rest) \<Rightarrow> Some (c # body, rest)))"

subsection \<open>@roeybiran/task\<close>

text \<open>
  White space is the white space of ASCII: tab, line feed, vertical tab, form feed,
  carriage return and space. The white space of Unicode beyond ASCII is several bytes
  long and is not trimmed in this model.
\<close>

definition isWhiteSpace :: "char \<Rightarrow> bool" where
  "isWhiteSpace c =
     (c = tab \<or> c = nl \<or> c = CHR 0x0B \<or> c = CHR 0x0C \<or> c = CHR 0x0D \<or> c = CHR 0x20)"

definition trim :: "string \<Rightarrow> string" where
  "trim s = rev (dropWhile isWhiteSpace (rev (dropWhile isWhiteSpace s)))"

text \<open>
  Modelled from the spec: the package @roeybiran/task is not under src/. \<open>execFile\<close>
  starts one external process; it fails when the process cannot be started or exits with a
  non-zero status, and otherwise gives the standard output of the process with the
  whitespace trimmed from both ends.
\<close>

definition task_execFile :: "process \<Rightarrow> string \<Rightarrow> string list \<Rightarrow> string io" where
  "task_execFile run file args =
     (case run file args of
        Inl e \<Rightarrow> (Inl e, [ExecFile file args])
      | Inr out \<Rightarrow> (Inr (trim out), [ExecFile file args]))"

subsection \<open>JSON.stringify\<close>

datatype json = JString string | JArray "json list" | JObject "(string \<times> json) list"

definition hexDigit :: "nat \<Rightarrow> char" where
  "hexDigit n = ''0123456789abcdef'' ! (n mod 16)"

text \<open>
  The quoting of one character inside a JSON string: the two-character escapes, then
  \<open>\u00XX\<close> for the other control characters, then the character itself.
\<close>

definition quoteJSONChar :: "char \<Rightarrow> string" where
  "quoteJSONChar c =
     (if c = CHR 0x08 then [bs, CHR ''b'']
      else if c = tab then [bs, CHR ''t'']
      else if c = nl then [bs, CHR ''n'']
      else if c = CHR 0x0C then [bs, CHR ''f'']
      else if c = CHR 0x0D then [bs, CHR ''r'']
      else if c = dq then [bs, dq]
      else if c = bs then [bs, bs]
      else if (of_char c :: nat) < 32 then
        [bs, CHR ''u'', CHR ''0'', CHR ''0'', hexDigit (of_char c div 16), hexDigit (of_char c)]
      else [c])"

definition quoteJSONString :: "string \<Rightarrow> string" where
  "quoteJSONString s = dq # concat (map quoteJSONChar s) @ [dq]"

fun join :: "string \<Rightarrow> string list \<Rightarrow> string" where
  "join sep [] = []"
| "join sep [x] = x"
| "join sep (x # y # ys) = x @ sep @ join sep (y # ys)"

fun JSON_stringify :: "json \<Rightarrow> string" where
  "JSON_stringify (JString s) = quoteJSONString s"
| "JSON_stringify (JArray xs) = ''['' @ join '','' (map JSON_stringify xs) @ '']''"
| "JSON_stringify (JObject kvs) =
     ''{'' @ join '','' (map (\<lambda>(k, v). quoteJSONString k @ '':'' @ JSON_stringify v) kvs) @ ''}''"

subsection \<open>String.prototype.split and number formatting\<close>

text \<open>
  \<open>s.split("\n")\<close>: the pieces of \<open>s\<close> between newlines; the empty string gives one
  empty piece, and a trailing newline gives a last empty piece.
\<close>

fun split_nl :: "string \<Rightarrow> string list" where
  "split_nl [] = [[]]"
| "split_nl (c # cs) =
     (if c = nl then [] # split_nl cs
      else (c # hd (split_nl cs)) # tl (split_nl cs))"

fun natDigits :: "nat \<Rightarrow> string" where
  "natDigits n =
     (if n < 10 then [hexDigit n] else natDigits (n div 10) @ [hexDigit (n mod 10)])"

declare natDigits.simps [simp del]

text \<open>
  The decimal text of a number in a template literal. Numbers are integers here; a
  JavaScript number with a fraction, or of magnitude 1e21 and more, prints otherwise.
\<close>

definition Number_toString :: "int \<Rightarrow> string" where
  "Number_toString i = (if i < 0 then CHR ''-'' # natDigits (nat (- i)) else natDigits (nat i))"

section \<open>LaunchBar\<close>

definition osascript :: string where
  "osascript = ''/usr/bin/osascript''"

definition quoted :: "string \<Rightarrow> string" where
  "quoted s = dq # s @ [dq]"

definition tellLaunchBar :: string where
  "tellLaunchBar = ''tell application '' @ quoted ''LaunchBar'' @ '' to ''"

text \<open>A value in a template literal: \<open>undefined\<close> prints as the word.\<close>

definition templateString :: "string option \<Rightarrow> string" where
  "templateString v = (case v of None \<Rightarrow> ''undefined'' | Some s \<Rightarrow> s)"

definition discard :: "'a io \<Rightarrow> unit io" where
  "discard m = then_io m (\<lambda>_. (Inr (), []))"

definition LaunchBar_output :: "json \<Rightarrow> unit io" where
  "LaunchBar_output data = console_log (JSON_stringify data)"

definition hide :: "process \<Rightarrow> unit io" where
  "hide run = discard (task_execFile run osascript [''-e'', tellLaunchBar @ ''hide''])"

definition remainActive :: "process \<Rightarrow> unit io" where
  "remainActive run =
     discard (task_execFile run osascript [''-e'', tellLaunchBar @ ''remain active''])"

definition hasKeyboardFocus :: "process \<Rightarrow> bool io" where
  "hasKeyboardFocus run =
     then_io
       (task_execFile run osascript [''-e'', tellLaunchBar @ ''return has keyboard focus''])
       (\<lambda>result. (Inr (result = ''true''), []))"

definition setClipboardString :: "process \<Rightarrow> string \<Rightarrow> unit io" where
  "setClipboardString run text =
     discard (task_execFile run osascript
       [''-e'', tellLaunchBar @ ''set the clipboard to ''
                @ quoted (templateString (escapeString (Some text)))])"

definition clearClipboard :: "process \<Rightarrow> unit io" where
  "clearClipboard run =
     discard (task_execFile run osascript [''-e'', ''set the clipboard to '' @ quoted ''''])"

definition paste :: "process \<Rightarrow> string \<Rightarrow> unit io" where
  "paste run text =
     discard (task_execFile run osascript
       [''-e'', tellLaunchBar @ ''paste in frontmost application ''
                @ quoted (templateString (escapeString (Some text)))])"

text \<open>
  \<open>performService\<close>: \<open>argv\<close> is optional in the source's documentation, so it is a
  \<open>string option\<close>; \<open>service\<close> goes into the template as it is.
\<close>

definition performService :: "process \<Rightarrow> string \<Rightarrow> string option \<Rightarrow> unit io" where
  "performService run service argv =
     discard (task_execFile run osascript
       [''-e'', tellLaunchBar @ ''perform service '' @ quoted service
                @ '' with string '' @ quoted (templateString (escapeString argv))])"

text \<open>The options of \<open>displayNotification\<close>; every field may be absent.\<close>

record options =
  o_text :: "string option"
  o_title :: "string option"
  o_subtitle :: "string option"
  o_callbackUrl :: "string option"
  o_afterDelay :: "int option"

text \<open>\<open>x || d\<close> on strings: the empty string is falsy.\<close>

definition or_string :: "string \<Rightarrow> string \<Rightarrow> string" where
  "or_string x d = (if x = [] then d else x)"

text \<open>\<open>x || d\<close> where \<open>x\<close> may be undefined.\<close>

definition or_undefined_string :: "string option \<Rightarrow> string \<Rightarrow> string" where
  "or_undefined_string x d = (case x of None \<Rightarrow> d | Some s \<Rightarrow> or_string s d)"

definition or_undefined_number :: "int option \<Rightarrow> int \<Rightarrow> int" where
  "or_undefined_number x d = (case x of None \<Rightarrow> d | Some n \<Rightarrow> if n = 0 then d else n)"

text \<open>The line continuation of the template: a space, the sign \<open>\<not>\<close>, a newline, two tabs.\<close>

definition continuation :: string where
  "continuation = [CHR 0x20, CHR 0xC2, CHR 0xAC, nl, tab, tab]"

definition notificationCommand :: "string \<Rightarrow> string \<Rightarrow> string \<Rightarrow> string \<Rightarrow> int \<Rightarrow> string" where
  "notificationCommand text title subtitle callbackUrl afterDelay =
     tellLaunchBar @ ''display in notification center '' @ quoted text @ continuation
     @ ''with title '' @ quoted title @ continuation
     @ ''subtitle '' @ quoted subtitle @ continuation
     @ ''callback URL '' @ quoted callbackUrl @ continuation
     @ ''after delay '' @ quoted (Number_toString afterDelay)"

definition displayNotification :: "process \<Rightarrow> options option \<Rightarrow> unit io" where
  "displayNotification run options =
     (case options of
        None \<Rightarrow>
          discard (task_execFile run osascript
            [''-e'', notificationCommand '''' ''LaunchBar'' '''' '''' 0])
      | Some opts \<Rightarrow>
          (let title = or_undefined_string (escapeString (o_title opts)) ''LaunchBar'';
               text = or_undefined_string (escapeString (o_text opts)) '''';
               subtitle = or_undefined_string (escapeString (o_subtitle opts)) '''';
               callbackUrl = or_undefined_string (o_callbackUrl opts) '''';
               afterDelay = or_undefined_number (o_afterDelay opts) 0
           in discard (task_execFile run osascript
                [''-e'', notificationCommand text title subtitle callbackUrl afterDelay])))"

subsection \<open>The environment snapshot and the stores\<close>

record env =
  actionPath :: "string option"
  cachePath :: "string option"
  supportPath :: "string option"
  isDebugLogEnabled :: bool
  applicationPath :: "string option"
  scriptType :: "string option"
  commandKey :: bool
  alternateKey :: bool
  shiftKey :: bool
  controlKey :: bool
  spaceKey :: bool
  actionRunsInBackground :: bool
  isLiveFeedbackEnabled :: bool

text \<open>\<open>process.env\<close> is a map from variable names to values; an unset variable is \<open>None\<close>.\<close>

definition LaunchBar_env :: "(string \<rightharpoonup> string) \<Rightarrow> env" where
  "LaunchBar_env penv =
     \<lparr> actionPath = penv ''LB_ACTION_PATH'',
       cachePath = penv ''LB_CACHE_PATH'',
       supportPath = penv ''LB_SUPPORT_PATH'',
       isDebugLogEnabled = (penv ''LB_DEBUG_LOG_ENABLED'' = Some ''1''),
       applicationPath = penv ''LB_LAUNCHBAR_PATH'',
       scriptType = penv ''LB_SCRIPT_TYPE'',
       commandKey = (penv ''LB_OPTION_COMMAND_KEY'' = Some ''1''),
       alternateKey = (penv ''LB_OPTION_ALTERNATE_KEY'' = Some ''1''),
       shiftKey = (penv ''LB_OPTION_SHIFT_KEY'' = Some ''1''),
       controlKey = (penv ''LB_OPTION_CONTROL_KEY'' = Some ''1''),
       spaceKey = (penv ''LB_OPTION_SPACE_KEY'' = Some ''1''),
       actionRunsInBackground = (penv ''LB_OPTION_RUN_IN_BACKGROUND'' = Some ''1''),
       isLiveFeedbackEnabled = (penv ''LB_OPTION_LIVE_FEEDBACK'' = Some ''1'') \<rparr>"

text \<open>
  The two stores are external; a store is the constructor that made it and the options
  the constructor was given.
\<close>

record storeOptions =
  configName :: "string option"
  cwd :: "string option"

datatype store = Conf storeOptions | CacheConf storeOptions

fun directory :: "store \<Rightarrow> string option" where
  "directory (Conf opts) = cwd opts"
| "directory (CacheConf opts) = cwd opts"

definition LaunchBar_config :: "(string \<rightharpoonup> string) \<Rightarrow> store" where
  "LaunchBar_config penv =
     Conf \<lparr> configName = None, cwd = supportPath (LaunchBar_env penv) \<rparr>"

definition LaunchBar_cache :: "(string \<rightharpoonup> string) \<Rightarrow> store" where
  "LaunchBar_cache penv =
     CacheConf \<lparr> configName = Some ''cache'', cwd = cachePath (LaunchBar_env penv) \<rparr>"

subsection \<open>textAction\<close>

datatype textArguments = TString string | TArray "string list"

definition normalize :: "textArguments \<Rightarrow> string list" where
  "normalize textArguments = (case textArguments of TString s \<Rightarrow> [s] | TArray xs \<Rightarrow> xs)"

definition allLines :: "textArguments \<Rightarrow> (string \<Rightarrow> string) \<Rightarrow> string list" where
  "allLines textArguments textProcessingFunction =
     concat (map (\<lambda>textArgumnet. map (\<lambda>line. textProcessingFunction line) (split_nl textArgumnet))
       (normalize textArguments))"

definition titles :: "string list \<Rightarrow> json" where
  "titles ls = JArray (map (\<lambda>x. JObject [(''title'', JString x)]) ls)"

text \<open>
  The joiner is optional and defaults to a newline. The environment snapshot is the
  module's \<open>LaunchBar.env\<close>, passed in.
\<close>

definition textAction ::
  "env \<Rightarrow> process \<Rightarrow> textArguments \<Rightarrow> (string \<Rightarrow> string) \<Rightarrow> string option \<Rightarrow> unit io" where
  "textAction e run textArguments textProcessingFunction joinerArg =
     (let joiner = (case joinerArg of None \<Rightarrow> [nl] | Some j \<Rightarrow> j);
          ls = allLines textArguments textProcessingFunction
      in if commandKey e then console_log (JSON_stringify (titles ls))
         else paste run (join joiner ls))"

text \<open>The example function of the specification: ASCII letters to upper case.\<close>

definition upperChar :: "char \<Rightarrow> char" where
  "upperChar c =
     (if (97::nat) \<le> of_char c \<and> of_char c \<le> (122::nat) then char_of (of_char c - (32::nat))
      else c)"

definition upper :: "string \<Rightarrow> string" where
  "upper s = map upperChar s"

section \<open>Running an operation\<close>

lemma fst_discard_execFile:
  "fst (discard (task_execFile run file args)) =
     (case run file args of Inl e \<Rightarrow> Inl e | Inr out \<Rightarrow> Inr ())"
  by (simp add: discard_def task_execFile_def then_io_def split: sum.splits)

lemma snd_discard_execFile:
  "snd (discard (task_execFile run file args)) = [ExecFile file args]"
  by (simp add: discard_def task_execFile_def then_io_def split: sum.splits)

section \<open>Escaping\<close>

lemma scanLiteral_quote: "scanLiteral (dq # rest) = Some ([], rest)"
  by (cases rest) simp_all

lemma scanLiteral_plain:
  "c \<noteq> dq \<Longrightarrow> c \<noteq> bs \<Longrightarrow>
   scanLiteral (c # xs @ dq # rest) =
     (case scanLiteral (xs @ dq # rest) of
        None \<Rightarrow> None
      | Some (body, r) \<Rightarrow> Some (c # body, r))"
  by (cases xs) simp_all

text \<open>
  A literal made of an escaped text and a closing quote denotes the text, and ends at
  that closing quote, whatever follows.
\<close>

lemma scanLiteral_escapeChars: "scanLiteral (escapeChars s @ dq # rest) = Some (s, rest)"
proof (induction s)
  case Nil
  show ?case by (simp add: scanLiteral_quote)
next
  case (Cons c s)
  show ?case
  proof (cases "c = dq \<or> c = bs")
    case True
    then show ?thesis using Cons.IH by (auto simp: unescape_def)
  next
    case False
    then show ?thesis using Cons.IH by (simp add: scanLiteral_plain)
  qed
qed

text \<open>
  C1. Every operation that puts text of the caller into a command string escapes it
  first: \<open>setClipboardString\<close>, \<open>paste\<close>, \<open>performService\<close> in both \<open>service\<close> and
  \<open>argv\<close>, and the text fields of \<open>displayNotification\<close>. The code does not do so for
  \<open>service\<close>: for the service \<open>a"b\<close> and the argument \<open>"\<close> the command holds the
  service as it is and the argument escaped, the literal that should hold the service
  ends after \<open>a\<close>, and the rest of the service is read as command text. Escaped, the
  service would have been \<open>a\"b\<close>.
\<close>

theorem performService_service_not_escaped:
  "snd (performService run [CHR ''a'', dq, CHR ''b''] (Some [dq])) =
     [ExecFile osascript
       [''-e'', tellLaunchBar @ ''perform service '' @ [dq, CHR ''a'', dq, CHR ''b'', dq]
                @ '' with string '' @ [dq, bs, dq, dq]]] \<and>
   scanLiteral ([CHR ''a'', dq, CHR ''b'', dq] @ '' with string '' @ [dq, bs, dq, dq]) =
     Some (''a'', [CHR ''b'', dq] @ '' with string '' @ [dq, bs, dq, dq]) \<and>
   escapeString (Some [CHR ''a'', dq, CHR ''b'']) = Some [CHR ''a'', bs, dq, CHR ''b'']"
  by (simp add: performService_def escapeString_def templateString_def snd_discard_execFile
      quoted_def)

text \<open>
  C2. For every string \<open>s\<close>, and so for every one with quotes or backslashes,
  \<open>setClipboardString s\<close> and \<open>paste s\<close> start one process whose command is the
  template, an opening quote, the escaped \<open>s\<close> and a closing quote; read by the rules of
  the interpreter, that literal is well formed, denotes exactly \<open>s\<close>, and ends with the
  command.
\<close>

theorem clipboard_and_paste_escaped:
  "snd (setClipboardString run s) =
     [ExecFile osascript
        [''-e'', tellLaunchBar @ ''set the clipboard to '' @ dq # escapeChars s @ [dq]]] \<and>
   snd (paste run s) =
     [ExecFile osascript
        [''-e'', tellLaunchBar @ ''paste in frontmost application '' @ dq # escapeChars s @ [dq]]] \<and>
   scanLiteral (escapeChars s @ [dq]) = Some (s, [])"
  by (simp add: setClipboardString_def paste_def escapeString_def templateString_def
      snd_discard_execFile quoted_def scanLiteral_escapeChars)

section \<open>Keyboard focus\<close>

text \<open>
  C3. Whatever the external process writes to its standard output, \<open>hasKeyboardFocus\<close>
  gives true exactly when that output, trimmed of whitespace, is the text \<open>true\<close>;
  \<open>false\<close>, the empty output and any other text give false.
\<close>

theorem hasKeyboardFocus_trimmed:
  "fst (hasKeyboardFocus run) =
     (case run osascript [''-e'', tellLaunchBar @ ''return has keyboard focus''] of
        Inl e \<Rightarrow> Inl e
      | Inr out \<Rightarrow> Inr (trim out = ''true'')) \<and>
   fst (hasKeyboardFocus (\<lambda>file args. Inr ''true\<newline>'')) = Inr True \<and>
   fst (hasKeyboardFocus (\<lambda>file args. Inr ''false\<newline>'')) = Inr False \<and>
   fst (hasKeyboardFocus (\<lambda>file args. Inr '''')) = Inr False \<and>
   fst (hasKeyboardFocus (\<lambda>file args. Inr ''garbage'')) = Inr False"
  by (simp add: hasKeyboardFocus_def task_execFile_def then_io_def trim_def isWhiteSpace_def
      split: sum.splits)

section \<open>Text actions\<close>

lemma split_nl_not_Nil: "split_nl s \<noteq> []"
  by (induction s) simp_all

lemma join_nl_Cons: "ls \<noteq> [] \<Longrightarrow> join [nl] ((c # hd ls) # tl ls) = c # join [nl] ls"
proof -
  assume "ls \<noteq> []"
  then obtain l ls' where ls: "ls = l # ls'"
    by (auto simp: neq_Nil_conv)
  show ?thesis unfolding ls by (cases ls') simp_all
qed

lemma join_nl_Nil_Cons: "ls \<noteq> [] \<Longrightarrow> join [nl] ([] # ls) = nl # join [nl] ls"
  by (cases ls) simp_all

text \<open>The pieces of a split, joined with newlines again, are the string that was split.\<close>

lemma join_split_nl: "join [nl] (split_nl s) = s"
  by (induction s) (simp_all add: split_nl_not_Nil join_nl_Cons join_nl_Nil_Cons)

text \<open>No piece of a split holds a newline.\<close>

lemma no_nl_in_split_nl: "nl \<notin> set (concat (split_nl s))"
proof (induction s)
  case Nil
  show ?case by simp
next
  case (Cons c s)
  obtain l ls where ls: "split_nl s = l # ls"
    using split_nl_not_Nil [of s] by (auto simp: neq_Nil_conv)
  show ?case using Cons.IH by (simp add: ls)
qed

lemma example_lines: "allLines (TArray [''a\<newline>b'', ''c'']) upper = [''A'', ''B'', ''C'']"
  by code_simp

lemma example_json:
  "JSON_stringify (titles [''A'', ''B'', ''C'']) =
     ''[{'' @ [dq] @ ''title'' @ [dq] @ '':'' @ [dq] @ ''A'' @ [dq]
     @ ''},{'' @ [dq] @ ''title'' @ [dq] @ '':'' @ [dq] @ ''B'' @ [dq]
     @ ''},{'' @ [dq] @ ''title'' @ [dq] @ '':'' @ [dq] @ ''C'' @ [dq] @ ''}]''"
  by code_simp

text \<open>
  C4. \<open>textAction(["a\nb", "c"], upper, "-")\<close> computes the lines \<open>A\<close>, \<open>B\<close>, \<open>C\<close> in
  this order; with the command key unset it pastes \<open>A-B-C\<close>, and with the command key set
  it prints the JSON array \<open>[{"title":"A"},{"title":"B"},{"title":"C"}]\<close> to standard
  output. In general the lines are those of the first input, then those of the second,
  and so on, each given to the processing function; the lines of an input are its pieces
  between newlines: joined with newlines they are the input again, and none holds a
  newline.
\<close>

theorem textAction_lines:
  "allLines (TArray [''a\<newline>b'', ''c'']) upper = [''A'', ''B'', ''C''] \<and>
   textAction (e\<lparr>commandKey := False\<rparr>) run (TArray [''a\<newline>b'', ''c'']) upper (Some ''-'') =
     paste run ''A-B-C'' \<and>
   textAction (e\<lparr>commandKey := True\<rparr>) run (TArray [''a\<newline>b'', ''c'']) upper (Some ''-'') =
     (Inr (),
      [Stdout (''[{'' @ [dq] @ ''title'' @ [dq] @ '':'' @ [dq] @ ''A'' @ [dq]
         @ ''},{'' @ [dq] @ ''title'' @ [dq] @ '':'' @ [dq] @ ''B'' @ [dq]
         @ ''},{'' @ [dq] @ ''title'' @ [dq] @ '':'' @ [dq] @ ''C'' @ [dq] @ ''}]'' @ [nl])]) \<and>
   allLines (TArray ts) f = concat (map (\<lambda>t. map f (split_nl t)) ts) \<and>
   join [nl] (split_nl s) = s \<and>
   nl \<notin> set (concat (split_nl s))"
proof (intro conjI)
  show "allLines (TArray [''a\<newline>b'', ''c'']) upper = [''A'', ''B'', ''C'']"
    by (rule example_lines)
  show "textAction (e\<lparr>commandKey := False\<rparr>) run (TArray [''a\<newline>b'', ''c'']) upper (Some ''-'') =
     paste run ''A-B-C''"
    by (simp add: textAction_def example_lines)
  show "textAction (e\<lparr>commandKey := True\<rparr>) run (TArray [''a\<newline>b'', ''c'']) upper (Some ''-'') =
     (Inr (),
      [Stdout (''[{'' @ [dq] @ ''title'' @ [dq] @ '':'' @ [dq] @ ''A'' @ [dq]
         @ ''},{'' @ [dq] @ ''title'' @ [dq] @ '':'' @ [dq] @ ''B'' @ [dq]
         @ ''},{'' @ [dq] @ ''title'' @ [dq] @ '':'' @ [dq] @ ''C'' @ [dq] @ ''}]'' @ [nl])])"
    by (simp add: textAction_def example_lines example_json console_log_def)
  show "allLines (TArray ts) f = concat (map (\<lambda>t. map f (split_nl t)) ts)"
    by (simp add: allLines_def normalize_def)
  show "join [nl] (split_nl s) = s"
    by (rule join_split_nl)
  show "nl \<notin> set (concat (split_nl s))"
    by (rule no_nl_in_split_nl)
qed

text \<open>
  C9. A single string given to \<open>textAction\<close> is the same as the array that holds only
  that string, for every processing function and joiner.
\<close>

theorem textAction_single_string:
  "textAction e run (TString s) f joiner = textAction e run (TArray [s]) f joiner"
  by (simp add: textAction_def allLines_def normalize_def)

text \<open>
  C10. With the command key set, \<open>textAction\<close> writes one JSON array to standard output,
  the array of the records \<open>{title: line}\<close>, and does nothing else: it starts no process,
  so it pastes nothing.
\<close>

theorem textAction_commandKey_only_prints:
  "textAction (e\<lparr>commandKey := True\<rparr>) run textArguments f joiner =
     (Inr (),
      [Stdout (JSON_stringify
         (JArray (map (\<lambda>line. JObject [(''title'', JString line)]) (allLines textArguments f)))
         @ [nl])])"
  by (simp add: textAction_def console_log_def titles_def Let_def)

section \<open>Notifications\<close>

lemma default_notificationCommand:
  "notificationCommand '''' ''LaunchBar'' '''' '''' 0 =
     ''tell application '' @ [dq] @ ''LaunchBar'' @ [dq]
     @ '' to display in notification center '' @ [dq, dq]
     @ [CHR 0x20, CHR 0xC2, CHR 0xAC, nl, tab, tab]
     @ ''with title '' @ [dq] @ ''LaunchBar'' @ [dq]
     @ [CHR 0x20, CHR 0xC2, CHR 0xAC, nl, tab, tab]
     @ ''subtitle '' @ [dq, dq]
     @ [CHR 0x20, CHR 0xC2, CHR 0xAC, nl, tab, tab]
     @ ''callback URL '' @ [dq, dq]
     @ [CHR 0x20, CHR 0xC2, CHR 0xAC, nl, tab, tab]
     @ ''after delay '' @ [dq, CHR ''0'', dq]"
  by code_simp

text \<open>
  C5. \<open>displayNotification()\<close> with no argument starts one process, with the
  notification command of the title \<open>LaunchBar\<close>, the empty text, subtitle and callback
  URL, and the delay 0; it fails only when that process does.
\<close>

theorem displayNotification_no_arguments:
  "snd (displayNotification run None) =
     [ExecFile osascript [''-e'', notificationCommand '''' ''LaunchBar'' '''' '''' 0]] \<and>
   fst (displayNotification run None) =
     (case run osascript [''-e'', notificationCommand '''' ''LaunchBar'' '''' '''' 0] of
        Inl e \<Rightarrow> Inl e
      | Inr out \<Rightarrow> Inr ()) \<and>
   notificationCommand '''' ''LaunchBar'' '''' '''' 0 =
     ''tell application '' @ [dq] @ ''LaunchBar'' @ [dq]
     @ '' to display in notification center '' @ [dq, dq]
     @ [CHR 0x20, CHR 0xC2, CHR 0xAC, nl, tab, tab]
     @ ''with title '' @ [dq] @ ''LaunchBar'' @ [dq]
     @ [CHR 0x20, CHR 0xC2, CHR 0xAC, nl, tab, tab]
     @ ''subtitle '' @ [dq, dq]
     @ [CHR 0x20, CHR 0xC2, CHR 0xAC, nl, tab, tab]
     @ ''callback URL '' @ [dq, dq]
     @ [CHR 0x20, CHR 0xC2, CHR 0xAC, nl, tab, tab]
     @ ''after delay '' @ [dq, CHR ''0'', dq]"
  unfolding displayNotification_def option.case
  by (intro conjI snd_discard_execFile fst_discard_execFile default_notificationCommand)

text \<open>
  C6. For every options record each absent field takes its default (text and subtitle
  empty, title \<open>LaunchBar\<close>, callback URL empty, delay 0), and all text fields are escaped.
  The defaults are taken: with only the text \<open>hi\<close> given, the command has the title
  \<open>LaunchBar\<close> and the other defaults. The callback URL is not escaped, where title,
  text and subtitle are: a callback URL \<open>a"b\<close> is in the command as it is, its literal
  ends after \<open>a\<close> whatever follows, and escaped it would have been \<open>a\"b\<close>.
\<close>

theorem displayNotification_callbackUrl_not_escaped:
  "snd (displayNotification run
     (Some \<lparr> o_text = Some ''x'', o_title = Some ''T'', o_subtitle = Some ''s'',
             o_callbackUrl = Some [CHR ''a'', dq, CHR ''b''], o_afterDelay = None \<rparr>)) =
     [ExecFile osascript
        [''-e'', notificationCommand ''x'' ''T'' ''s'' [CHR ''a'', dq, CHR ''b''] 0]] \<and>
   scanLiteral ([CHR ''a'', dq, CHR ''b'', dq] @ rest) = Some (''a'', CHR ''b'' # dq # rest) \<and>
   escapeString (Some [CHR ''a'', dq, CHR ''b'']) = Some [CHR ''a'', bs, dq, CHR ''b''] \<and>
   snd (displayNotification run
     (Some \<lparr> o_text = Some ''hi'', o_title = None, o_subtitle = None,
             o_callbackUrl = None, o_afterDelay = None \<rparr>)) =
     [ExecFile osascript [''-e'', notificationCommand ''hi'' ''LaunchBar'' '''' '''' 0]]"
  by (simp add: displayNotification_def escapeString_def snd_discard_execFile
      or_string_def or_undefined_string_def or_undefined_number_def)

section \<open>The environment snapshot\<close>

text \<open>
  C7. Each boolean field of the environment snapshot is true exactly when its environment
  variable is set to the string \<open>1\<close>, and false for every other value and when the
  variable is unset.
\<close>

theorem env_booleans:
  "isDebugLogEnabled (LaunchBar_env penv) = (penv ''LB_DEBUG_LOG_ENABLED'' = Some ''1'') \<and>
   commandKey (LaunchBar_env penv) = (penv ''LB_OPTION_COMMAND_KEY'' = Some ''1'') \<and>
   alternateKey (LaunchBar_env penv) = (penv ''LB_OPTION_ALTERNATE_KEY'' = Some ''1'') \<and>
   shiftKey (LaunchBar_env penv) = (penv ''LB_OPTION_SHIFT_KEY'' = Some ''1'') \<and>
   controlKey (LaunchBar_env penv) = (penv ''LB_OPTION_CONTROL_KEY'' = Some ''1'') \<and>
   spaceKey (LaunchBar_env penv) = (penv ''LB_OPTION_SPACE_KEY'' = Some ''1'') \<and>
   actionRunsInBackground (LaunchBar_env penv) =
     (penv ''LB_OPTION_RUN_IN_BACKGROUND'' = Some ''1'') \<and>
   isLiveFeedbackEnabled (LaunchBar_env penv) = (penv ''LB_OPTION_LIVE_FEEDBACK'' = Some ''1'')"
  by (simp add: LaunchBar_env_def)

section \<open>The stores\<close>

text \<open>
  C8. The config store is constructed with its directory set to the support path of the
  environment snapshot, and the cache store with its directory set to the cache path of
  the environment snapshot.
\<close>

theorem store_directories:
  "directory (LaunchBar_config penv) = supportPath (LaunchBar_env penv) \<and>
   directory (LaunchBar_cache penv) = cachePath (LaunchBar_env penv) \<and>
   supportPath (LaunchBar_env penv) = penv ''LB_SUPPORT_PATH'' \<and>
   cachePath (LaunchBar_env penv) = penv ''LB_CACHE_PATH'' \<and>
   (\<exists>opts. LaunchBar_config penv = Conf opts) \<and>
   (\<exists>opts. LaunchBar_cache penv = CacheConf opts)"
  by (simp add: LaunchBar_config_def LaunchBar_cache_def LaunchBar_env_def)

end
